theory Spec2Isabelle
  imports Main
begin

section \<open>The Sandpack provider component (sandpack-context.tsx)\<close>

text \<open>
  The provider is a React class component. Its fields, its React state, the queue of
  state updates that React has accepted but not yet applied, and the calls it makes to
  the bundler engine and to the embedding application are all explicit here.
\<close>

subsection \<open>Values and data\<close>

text \<open>
  Inbound messages are untyped in the source (\<open>m: any\<close>), and their fields are copied into
  the state as they are. A JavaScript value is therefore a datatype of its own; numbers
  are only ever copied, never computed with.
\<close>

datatype jsval =
    Undefined
  | Null
  | Bool bool
  | Num int
  | Str string
  | Obj "(string \<times> jsval) list"

text \<open>
  A message is the object handed to the listener by the channel (never \<open>null\<close>: the
  channel only forwards objects that carry its marker property). It is modelled by its
  property read: \<open>m ''type''\<close> is \<open>m.type\<close>, and an absent property reads \<open>Undefined\<close>.
\<close>

type_synonym message = "string \<Rightarrow> jsval"

text \<open>\<open>IFile\<close>: the content of a file. \<open>IFiles\<close>: an object from paths to files.\<close>

record IFile =
  code :: string

type_synonym IFiles = "string \<rightharpoonup> IFile"

text \<open>
  \<open>Record<string, string>\<close>: the dependency object, as the list of its own properties in
  the order in which JavaScript enumerates them.
\<close>

type_synonym Dependencies = "(string \<times> string) list"

text \<open>
  Objects passed as properties are compared by identity in \<open>componentDidUpdate\<close>
  (\<open>!==\<close>), so a property object carries its identity beside its contents.
\<close>

datatype 'a obj = Object (ref: nat) (val: 'a)

record IModuleError =
  title :: jsval
  path :: jsval
  message :: jsval
  line :: jsval
  column :: jsval

text \<open>A DOM element, a callback and a file resolver are opaque: a handle each.\<close>

type_synonym HTMLIFrameElement = nat
type_synonym callback = nat
type_synonym resolver = nat

text \<open>\<open>interface State\<close>.\<close>

record State =
  files :: IFiles
  browserPath :: string
  openedPath :: string
  iframe :: "HTMLIFrameElement option"
  managerState :: jsval
  errors :: "IModuleError list"
  status :: jsval

text \<open>
  \<open>interface Props\<close>, without the properties that only \<open>render\<close> reads (\<open>className\<close>,
  \<open>style\<close>, \<open>width\<close>, \<open>height\<close>, \<open>children\<close>). The field names carry the prefix \<open>p_\<close>
  because \<open>files\<close> and \<open>openedPath\<close> are fields of the state too. \<open>skipEval\<close> has a
  default (\<open>defaultProps\<close>), so it is always a boolean.
\<close>

record Props =
  p_showOpenInCodeSandbox :: "bool option"
  p_files :: "IFiles obj"
  p_initialPath :: "string option"
  p_entry :: "string option"
  p_openedPath :: "string option"
  p_dependencies :: "Dependencies obj option"
  p_bundlerURL :: "string option"
  p_skipEval :: bool
  p_template :: "string option"
  p_onFileChange :: "callback option"
  p_fileResolver :: "resolver option"

text \<open>The object returned by \<open>getOptions\<close>, and the two objects sent to the engine.\<close>

record Options =
  o_bundlerURL :: "string option"
  o_fileResolver :: "resolver option"
  o_skipEval :: bool

record SandboxInfo =
  i_files :: IFiles
  i_template :: "string option"
  i_showOpenInCodeSandbox :: "bool option"

text \<open>
  The engine handle (\<open>Manager\<close>, of the package \<open>smooshpack\<close>). The provider reads one
  field of it, \<open>bundlerURL\<close>.
\<close>

record Manager =
  m_element :: HTMLIFrameElement
  m_bundlerURL :: string

text \<open>
  \<open>ISandpackContext\<close>, the snapshot built by \<open>_getSandpackState\<close>. Its function members
  (\<open>openFile\<close>, \<open>updateFiles\<close>, ...) are the component's own methods and are left out.
\<close>

record ISandpackContext =
  ctx_files :: IFiles
  ctx_openedPath :: string
  ctx_browserPath :: string
  ctx_errors :: "IModuleError list"
  ctx_managerState :: jsval
  ctx_managerStatus :: jsval
  ctx_browserFrame :: "HTMLIFrameElement option"
  ctx_bundlerURL :: "string option"

text \<open>What the component does to the outside: the channel, the engine, the callback.\<close>

datatype event =
    Listen
  | Unlisten
  | NewManager HTMLIFrameElement SandboxInfo Options
  | UpdatePreview SandboxInfo
  | UpdateOptions Options
  | Dispatch string
  | OnFileChange callback IFiles ISandpackContext

datatype error = NoDependencies | NoEntry

text \<open>
  The component instance: \<open>this.props\<close>, \<open>this.state\<close>, \<open>this.manager\<close>, \<open>this.iframe\<close>,
  and what React keeps for it: the state updates passed to \<open>setState\<close> that are not
  applied yet, and whether React is batching updates at the moment (inside one of its own
  event handlers or lifecycle methods, and always under a concurrent root). When React is
  not batching, \<open>setState\<close> applies the update before it returns.
\<close>

record component =
  props :: Props
  state :: State
  pending :: "(State \<Rightarrow> State) list"
  batching :: bool
  manager :: "Manager option"
  iframe_field :: "HTMLIFrameElement option"

subsection \<open>React's \<open>setState\<close>\<close>

definition commit :: "component \<Rightarrow> component" where
  "commit c = c\<lparr>state := foldl (\<lambda>s u. u s) (state c) (pending c), pending := []\<rparr>"

definition setState :: "(State \<Rightarrow> State) \<Rightarrow> component \<Rightarrow> component" where
  "setState u c =
     (let c' = c\<lparr>pending := pending c @ [u]\<rparr>
      in if batching c then c' else commit c')"

subsection \<open>\<open>handleMessage\<close>\<close>

definition moduleError :: "message \<Rightarrow> IModuleError" where
  "moduleError m =
     \<lparr>title = m ''title'', path = m ''path'', message = m ''message'',
      line = m ''line'', column = m ''column''\<rparr>"

definition handleMessage :: "message \<Rightarrow> component \<Rightarrow> component" where
  "handleMessage m c =
     (if m ''type'' = Str ''state'' then
        setState (\<lambda>s. s\<lparr>managerState := m ''state''\<rparr>) c
      else if m ''type'' = Str ''start'' then
        setState (\<lambda>s. s\<lparr>errors := []\<rparr>) c
      else if m ''type'' = Str ''status'' then
        setState (\<lambda>s. s\<lparr>status := m ''status''\<rparr>) c
      else if m ''type'' = Str ''action'' \<and> m ''action'' = Str ''show-error'' then
        setState (\<lambda>s. s\<lparr>errors := errors s @ [moduleError m]\<rparr>) c
      else c)"

subsection \<open>\<open>JSON.stringify(value, null, 2)\<close>\<close>

text \<open>
  The descriptor is written with the language's \<open>JSON.stringify\<close> and an indentation of
  two spaces. The values that occur in it are strings and objects. Strings are byte
  strings (text in UTF-8): the quote, the backslash and the control characters are
  escaped, every other byte is copied.
\<close>

datatype json = JString string | JObject "(string \<times> json) list"

definition hexDigit :: "nat \<Rightarrow> char" where
  "hexDigit n = (if n < 10 then char_of (48 + n) else char_of (87 + n))"

definition quoteChar :: "char \<Rightarrow> string" where
  "quoteChar ch =
     (if ch = CHR 0x08 then [CHR 0x5C, CHR ''b'']
      else if ch = CHR 0x09 then [CHR 0x5C, CHR ''t'']
      else if ch = CHR 0x0A then [CHR 0x5C, CHR ''n'']
      else if ch = CHR 0x0C then [CHR 0x5C, CHR ''f'']
      else if ch = CHR 0x0D then [CHR 0x5C, CHR ''r'']
      else if ch = CHR 0x22 then [CHR 0x5C, CHR 0x22]
      else if ch = CHR 0x5C then [CHR 0x5C, CHR 0x5C]
      else if (of_char ch :: nat) < 32 then
        [CHR 0x5C, CHR ''u'', CHR ''0'', CHR ''0'',
         hexDigit (of_char ch div 16), hexDigit (of_char ch mod 16)]
      else [ch])"

definition quoteJSONString :: "string \<Rightarrow> string" where
  "quoteJSONString s = CHR 0x22 # concat (map quoteChar s) @ [CHR 0x22]"

fun serializeJSON :: "string \<Rightarrow> json \<Rightarrow> string"
  and serializeMembers :: "string \<Rightarrow> (string \<times> json) list \<Rightarrow> string" where
  "serializeJSON indent (JString s) = quoteJSONString s"
| "serializeJSON indent (JObject []) = ''{}''"
| "serializeJSON indent (JObject (kv # kvs)) =
     [CHR ''{'', CHR 0x0A] @ (indent @ ''  '') @ serializeMembers (indent @ ''  '') (kv # kvs)
       @ [CHR 0x0A] @ indent @ ''}''"
| "serializeMembers indent [] = []"
| "serializeMembers indent ((k, v) # kvs) =
     quoteJSONString k @ '': '' @ serializeJSON indent v
       @ (if kvs = [] then [] else [CHR '','', CHR 0x0A] @ indent @ serializeMembers indent kvs)"

definition JSON_stringify2 :: "json \<Rightarrow> string" where
  "JSON_stringify2 v = serializeJSON [] v"

subsection \<open>\<open>createMissingPackageJSON\<close>\<close>

text \<open>The object literal \<open>{ name: 'run', main: entry, dependencies }\<close>.\<close>

definition packageDescriptor :: "string \<Rightarrow> Dependencies \<Rightarrow> json" where
  "packageDescriptor entry dependencies =
     JObject [(''name'', JString ''run''),
              (''main'', JString entry),
              (''dependencies'', JObject (map (\<lambda>(k, v). (k, JString v)) dependencies))]"

text \<open>
  A file object is always truthy, so \<open>!newFiles['/package.json']\<close> holds when the key is
  absent. A dependency object is truthy even when it is empty; an entry is truthy when it
  is a string that is not empty.
\<close>

definition createMissingPackageJSON ::
  "IFiles \<Rightarrow> Dependencies option \<Rightarrow> string option \<Rightarrow> error + IFiles" where
  "createMissingPackageJSON fs dependencies entry =
     (if fs ''/package.json'' = None then
        (case dependencies of
           None \<Rightarrow> Inl NoDependencies
         | Some deps \<Rightarrow>
             (case entry of
                None \<Rightarrow> Inl NoEntry
              | Some e \<Rightarrow>
                  if e = [] then Inl NoEntry
                  else Inr (fs(''/package.json'' \<mapsto>
                         \<lparr>code = JSON_stringify2 (packageDescriptor e deps)\<rparr>))))
      else Inr fs)"

subsection \<open>The constructor\<close>

text \<open>\<open>a || b\<close> on an optional string: \<open>a\<close> when it is a string that is not empty.\<close>

definition orElse :: "string option \<Rightarrow> string \<Rightarrow> string" where
  "orElse a b = (case a of None \<Rightarrow> b | Some s \<Rightarrow> if s = [] then b else s)"

text \<open>
  Every operation returns the calls it makes to the outside, in order, beside its
  result. An operation that throws returns \<open>Inl\<close>, with the calls made before the throw.
\<close>

definition "constructor" :: "Props \<Rightarrow> event list \<times> (error + component)" where
  "constructor p =
     (case createMissingPackageJSON (val (p_files p)) (map_option val (p_dependencies p))
             (p_entry p) of
        Inl e \<Rightarrow> ([], Inl e)
      | Inr fs \<Rightarrow>
          ([Listen],
           Inr \<lparr>props = p,
                state = \<lparr>files = fs,
                         browserPath = orElse (p_initialPath p) ''/'',
                         openedPath = orElse (p_openedPath p) (orElse (p_entry p) ''/index.js''),
                         iframe = None,
                         managerState = Undefined,
                         errors = [],
                         status = Str ''initializing''\<rparr>,
                pending = [],
                batching = True,
                manager = None,
                iframe_field = None\<rparr>))"

subsection \<open>\<open>getOptions\<close>, \<open>setupFrame\<close>, \<open>_getSandpackState\<close>\<close>

definition getOptions :: "component \<Rightarrow> Options" where
  "getOptions c =
     \<lparr>o_bundlerURL = p_bundlerURL (props c),
      o_fileResolver = p_fileResolver (props c),
      o_skipEval = p_skipEval (props c)\<rparr>"

text \<open>
  \<open>generatePackageJSON\<close> and the constructor of \<open>Manager\<close> belong to the engine package;
  \<open>setupFrame\<close> takes them as parameters.
\<close>

definition setupFrame ::
  "(IFiles \<Rightarrow> Dependencies option \<Rightarrow> string option \<Rightarrow> error + IFiles) \<Rightarrow>
   (HTMLIFrameElement \<Rightarrow> SandboxInfo \<Rightarrow> Options \<Rightarrow> Manager) \<Rightarrow>
   HTMLIFrameElement option \<Rightarrow> component \<Rightarrow> event list \<times> (error + component)" where
  "setupFrame generatePackageJSON newManager el c =
     (case el of
        None \<Rightarrow> ([], Inr c)
      | Some e \<Rightarrow>
          (case generatePackageJSON (val (p_files (props c)))
                  (map_option val (p_dependencies (props c))) (p_entry (props c)) of
             Inl err \<Rightarrow> ([], Inl err)
           | Inr fs \<Rightarrow>
               (let info = \<lparr>i_files = fs, i_template = p_template (props c),
                            i_showOpenInCodeSandbox = p_showOpenInCodeSandbox (props c)\<rparr>;
                    opts = getOptions c
                in ([NewManager e info opts],
                    Inr (setState (\<lambda>s. s\<lparr>iframe := Some e\<rparr>)
                           (c\<lparr>manager := Some (newManager e info opts),
                              iframe_field := Some e\<rparr>))))))"

definition getSandpackState :: "component \<Rightarrow> ISandpackContext" where
  "getSandpackState c =
     \<lparr>ctx_files = files (state c),
      ctx_openedPath = openedPath (state c),
      ctx_browserPath = browserPath (state c),
      ctx_errors = errors (state c),
      ctx_managerState = managerState (state c),
      ctx_managerStatus = status (state c),
      ctx_browserFrame = iframe (state c),
      ctx_bundlerURL = map_option m_bundlerURL (manager c)\<rparr>"

subsection \<open>\<open>updateFiles\<close>, \<open>updateCurrentFile\<close>, \<open>openFile\<close>\<close>

text \<open>
  The change callback belongs to the embedding application: its invocation is recorded
  with its arguments, and it is taken to return.
\<close>

definition updateFiles :: "IFiles \<Rightarrow> component \<Rightarrow> event list \<times> component" where
  "updateFiles fs c =
     (let c1 = setState (\<lambda>s. s\<lparr>files := fs\<rparr>) c
      in ((case p_onFileChange (props c1) of
             None \<Rightarrow> []
           | Some cb \<Rightarrow> [OnFileChange cb fs (getSandpackState c1)])
          @ (case manager c1 of
               None \<Rightarrow> []
             | Some m \<Rightarrow>
                 [UpdatePreview
                    \<lparr>i_files = fs, i_template = p_template (props c1),
                     i_showOpenInCodeSandbox = p_showOpenInCodeSandbox (props c1)\<rparr>]),
          c1))"

text \<open>
  \<open>this.state.files[this.state.openedPath]?.code\<close> is \<open>undefined\<close> when there is no file at
  the open path.
\<close>

definition updateCurrentFile :: "IFile \<Rightarrow> component \<Rightarrow> event list \<times> component" where
  "updateCurrentFile file c =
     (if Some (code file) \<noteq> map_option code (files (state c) (openedPath (state c))) then
        updateFiles ((files (state c))(openedPath (state c) \<mapsto> file)) c
      else ([], c))"

definition openFile :: "string \<Rightarrow> component \<Rightarrow> component" where
  "openFile p c = setState (\<lambda>s. s\<lparr>openedPath := p\<rparr>) c"

subsection \<open>\<open>componentDidUpdate\<close>, \<open>componentWillUnmount\<close>\<close>

text \<open>
  \<open>componentDidUpdate\<close> receives the previous properties; \<open>this.props\<close> are the new ones.
  \<open>files\<close> and \<open>dependencies\<close> are objects, compared by identity; \<open>entry\<close> and \<open>template\<close>
  are strings, compared by value.
\<close>

definition propsChanged :: "Props \<Rightarrow> Props \<Rightarrow> bool" where
  "propsChanged prev cur =
     (ref (p_files prev) \<noteq> ref (p_files cur)
      \<or> map_option ref (p_dependencies prev) \<noteq> map_option ref (p_dependencies cur)
      \<or> p_entry prev \<noteq> p_entry cur
      \<or> p_template prev \<noteq> p_template cur)"

definition syncOptions :: "Props \<Rightarrow> component \<Rightarrow> event list" where
  "syncOptions prev c =
     (case manager c of
        None \<Rightarrow> []
      | Some m \<Rightarrow>
          if p_skipEval (props c) \<noteq> p_skipEval prev then [UpdateOptions (getOptions c)]
          else [])"

definition componentDidUpdate :: "Props \<Rightarrow> component \<Rightarrow> event list \<times> (error + component)" where
  "componentDidUpdate prev c =
     (if propsChanged prev (props c) then
        (case createMissingPackageJSON (val (p_files (props c)))
                (map_option val (p_dependencies (props c))) (p_entry (props c)) of
           Inl e \<Rightarrow> ([], Inl e)
         | Inr newFiles \<Rightarrow>
             (let (evs, c1) = updateFiles newFiles c
              in (evs @ syncOptions prev c1, Inr c1)))
      else (syncOptions prev c, Inr c))"

definition componentWillUnmount :: "component \<Rightarrow> event list \<times> component" where
  "componentWillUnmount c = ([Unlisten], c)"

subsection \<open>\<open>getManagerTranspilerContext\<close>\<close>

text \<open>
  The part that runs at the call: a second listener is registered and, when the manager
  exists, the request is dispatched. The promise is settled by a later message, if ever.
\<close>

definition getManagerTranspilerContext :: "component \<Rightarrow> event list \<times> component" where
  "getManagerTranspilerContext c =
     (Listen # (case manager c of
                  None \<Rightarrow> []
                | Some m \<Rightarrow> [Dispatch ''get-transpiler-context'']),
      c)"

subsection \<open>Reading a descriptor\<close>

text \<open>
  What a JSON text says is given by a reader. It is not part of the component: it
  reads the JSON texts made of objects and strings, with any white space between the
  tokens, every escape of the JSON grammar, and \<open>\u\<close> escapes of the code points below 128
  (one byte each). \<open>readValue\<close> and \<open>readMembers\<close> take a bound on the number of nested
  calls; \<open>readJSON\<close> gives them the length of the text, which is always enough.
\<close>

definition isWS :: "char \<Rightarrow> bool" where
  "isWS c = (c = CHR '' '' \<or> c = CHR 0x09 \<or> c = CHR 0x0A \<or> c = CHR 0x0D)"

definition hexValue :: "char \<Rightarrow> nat option" where
  "hexValue c =
     (let n = (of_char c :: nat)
      in if 48 \<le> n \<and> n \<le> 57 then Some (n - 48)
         else if 97 \<le> n \<and> n \<le> 102 then Some (n - 87)
         else if 65 \<le> n \<and> n \<le> 70 then Some (n - 55)
         else None)"

definition unescape :: "char \<Rightarrow> char option" where
  "unescape e =
     (if e = CHR ''b'' then Some (CHR 0x08)
      else if e = CHR ''t'' then Some (CHR 0x09)
      else if e = CHR ''n'' then Some (CHR 0x0A)
      else if e = CHR ''f'' then Some (CHR 0x0C)
      else if e = CHR ''r'' then Some (CHR 0x0D)
      else if e = CHR 0x22 then Some (CHR 0x22)
      else if e = CHR 0x5C then Some (CHR 0x5C)
      else if e = CHR ''/'' then Some (CHR ''/'')
      else None)"

definition consChar :: "char \<Rightarrow> (string \<times> string) option \<Rightarrow> (string \<times> string) option" where
  "consChar ch r = (case r of None \<Rightarrow> None | Some (s, t) \<Rightarrow> Some (ch # s, t))"

fun readChars :: "string \<Rightarrow> (string \<times> string) option" where
  "readChars [] = None"
| "readChars (c # cs) =
     (if c = CHR 0x22 then Some ([], cs)
      else if c = CHR 0x5C then
        (case cs of
           [] \<Rightarrow> None
         | e # r \<Rightarrow>
             if e = CHR ''u'' then
               (case r of
                  h1 # h2 # h3 # h4 # r' \<Rightarrow>
                    (case (hexValue h1, hexValue h2, hexValue h3, hexValue h4) of
                       (Some a, Some b, Some x, Some y) \<Rightarrow>
                         if a = 0 \<and> b = 0 \<and> x < 8 then consChar (char_of (16 * x + y)) (readChars r')
                         else None
                     | _ \<Rightarrow> None)
                | _ \<Rightarrow> None)
             else (case unescape e of
                     None \<Rightarrow> None
                   | Some ch \<Rightarrow> consChar ch (readChars r)))
      else if (of_char c :: nat) < 32 then None
      else consChar c (readChars cs))"

fun readValue :: "nat \<Rightarrow> string \<Rightarrow> (json \<times> string) option"
  and readMembers :: "nat \<Rightarrow> string \<Rightarrow> ((string \<times> json) list \<times> string) option" where
  "readValue 0 s = None"
| "readValue (Suc n) s =
     (case dropWhile isWS s of
        [] \<Rightarrow> None
      | c # r \<Rightarrow>
          if c = CHR 0x22 then
            (case readChars r of None \<Rightarrow> None | Some (x, t) \<Rightarrow> Some (JString x, t))
          else if c = CHR ''{'' then
            (case dropWhile isWS r of
               [] \<Rightarrow> None
             | d # r' \<Rightarrow>
                 if d = CHR ''}'' then Some (JObject [], r')
                 else (case readMembers n (d # r') of
                         None \<Rightarrow> None
                       | Some (kvs, t) \<Rightarrow> Some (JObject kvs, t)))
          else None)"
| "readMembers 0 s = None"
| "readMembers (Suc n) s =
     (case dropWhile isWS s of
        [] \<Rightarrow> None
      | c # r \<Rightarrow>
          if c \<noteq> CHR 0x22 then None
          else
            (case readChars r of
               None \<Rightarrow> None
             | Some (k, r1) \<Rightarrow>
                 (case dropWhile isWS r1 of
                    [] \<Rightarrow> None
                  | c1 # r2 \<Rightarrow>
                      if c1 \<noteq> CHR '':'' then None
                      else
                        (case readValue n r2 of
                           None \<Rightarrow> None
                         | Some (v, r3) \<Rightarrow>
                             (case dropWhile isWS r3 of
                                [] \<Rightarrow> None
                              | c3 # r4 \<Rightarrow>
                                  if c3 = CHR '','' then
                                    (case readMembers n r4 of
                                       None \<Rightarrow> None
                                     | Some (kvs, t) \<Rightarrow> Some ((k, v) # kvs, t))
                                  else if c3 = CHR ''}'' then Some ([(k, v)], r4)
                                  else None)))))"

definition readJSON :: "string \<Rightarrow> json option" where
  "readJSON s =
     (case readValue (length s) s of
        None \<Rightarrow> None
      | Some (v, rest) \<Rightarrow> if dropWhile isWS rest = [] then Some v else None)"

text \<open>The \<open>main\<close> and \<open>dependencies\<close> fields of a descriptor text.\<close>

definition descriptorMain :: "string \<Rightarrow> string option" where
  "descriptorMain text =
     (case readJSON text of
        Some (JObject kvs) \<Rightarrow>
          (case map_of kvs ''main'' of Some (JString s) \<Rightarrow> Some s | _ \<Rightarrow> None)
      | _ \<Rightarrow> None)"

fun stringValues :: "(string \<times> json) list \<Rightarrow> (string \<times> string) list option" where
  "stringValues [] = Some []"
| "stringValues ((k, JString s) # kvs) =
     (case stringValues kvs of None \<Rightarrow> None | Some r \<Rightarrow> Some ((k, s) # r))"
| "stringValues ((k, JObject x) # kvs) = None"

definition descriptorDependencies :: "string \<Rightarrow> Dependencies option" where
  "descriptorDependencies text =
     (case readJSON text of
        Some (JObject kvs) \<Rightarrow>
          (case map_of kvs ''dependencies'' of Some (JObject ds) \<Rightarrow> stringValues ds | _ \<Rightarrow> None)
      | _ \<Rightarrow> None)"

text \<open>The number of nested calls that reading a value back takes.\<close>

fun need :: "json \<Rightarrow> nat" and needMembers :: "(string \<times> json) list \<Rightarrow> nat" where
  "need (JString s) = 1"
| "need (JObject kvs) = Suc (needMembers kvs)"
| "needMembers [] = 0"
| "needMembers ((k, v) # kvs) = Suc (max (need v) (needMembers kvs))"

subsection \<open>Counting calls\<close>

definition isUpdatePreview :: "event \<Rightarrow> bool" where
  "isUpdatePreview e = (case e of UpdatePreview i \<Rightarrow> True | _ \<Rightarrow> False)"

definition isOnFileChange :: "event \<Rightarrow> bool" where
  "isOnFileChange e = (case e of OnFileChange cb fs ctx \<Rightarrow> True | _ \<Rightarrow> False)"

subsection \<open>The life of a component\<close>

text \<open>
  What can happen to a constructed component: a message arrives, the hidden iframe's
  \<open>ref\<close> callback runs, a descendant calls one of the operations of the context, the parent
  renders the provider with new properties (React stores them and calls
  \<open>componentDidUpdate\<close> with the previous ones), React applies the queued state updates and
  enters or leaves batching, a descendant asks for the transpiler context, the component
  unmounts. A throw ends the run.
\<close>

datatype action =
    Message message
  | Frame "HTMLIFrameElement option"
  | Open string
  | Edit IFile
  | Update IFiles
  | Rerender Props
  | Apply bool
  | Ask
  | Unmount

fun perform ::
  "(IFiles \<Rightarrow> Dependencies option \<Rightarrow> string option \<Rightarrow> error + IFiles) \<Rightarrow>
   (HTMLIFrameElement \<Rightarrow> SandboxInfo \<Rightarrow> Options \<Rightarrow> Manager) \<Rightarrow>
   action \<Rightarrow> component \<Rightarrow> error + component" where
  "perform g mk (Message m) c = Inr (handleMessage m c)"
| "perform g mk (Frame el) c = snd (setupFrame g mk el c)"
| "perform g mk (Open p) c = Inr (openFile p c)"
| "perform g mk (Edit file) c = Inr (snd (updateCurrentFile file c))"
| "perform g mk (Update fs) c = Inr (snd (updateFiles fs c))"
| "perform g mk (Rerender p) c = snd (componentDidUpdate (props c) (c\<lparr>props := p\<rparr>))"
| "perform g mk (Apply b) c = Inr ((commit c)\<lparr>batching := b\<rparr>)"
| "perform g mk Ask c = Inr (snd (getManagerTranspilerContext c))"
| "perform g mk Unmount c = Inr (snd (componentWillUnmount c))"

fun run ::
  "(IFiles \<Rightarrow> Dependencies option \<Rightarrow> string option \<Rightarrow> error + IFiles) \<Rightarrow>
   (HTMLIFrameElement \<Rightarrow> SandboxInfo \<Rightarrow> Options \<Rightarrow> Manager) \<Rightarrow>
   action list \<Rightarrow> component \<Rightarrow> error + component" where
  "run g mk [] c = Inr c"
| "run g mk (a # as) c = (case perform g mk a c of Inl e \<Rightarrow> Inl e | Inr c' \<Rightarrow> run g mk as c')"

text \<open>A call of \<open>updateFiles\<close> keeps the descriptor when its file set has one.\<close>

fun keepsDescriptor :: "action \<Rightarrow> bool" where
  "keepsDescriptor (Update fs) = (fs ''/package.json'' \<noteq> None)"
| "keepsDescriptor a = True"

text \<open>
  The invariant behind it: the state has a descriptor, and no queued update removes one.
\<close>

definition descriptorKept :: "component \<Rightarrow> bool" where
  "descriptorKept c =
     (files (state c) ''/package.json'' \<noteq> None
      \<and> (\<forall>u \<in> set (pending c). \<forall>s. files s ''/package.json'' \<noteq> None
            \<longrightarrow> files (u s) ''/package.json'' \<noteq> None))"

subsection \<open>Example configurations\<close>

text \<open>
  A provider configured with one source file, an entry, one dependency and a change
  callback; the component that its constructor builds; and three messages.
\<close>

definition demoFiles :: IFiles where
  "demoFiles = [''/index.js'' \<mapsto> \<lparr>code = ''render()''\<rparr>]"

definition demoProps :: Props where
  "demoProps =
     \<lparr>p_showOpenInCodeSandbox = None,
      p_files = Object 1 demoFiles,
      p_initialPath = None,
      p_entry = Some ''/index.js'',
      p_openedPath = None,
      p_dependencies = Some (Object 2 [(''react'', ''16.8.0'')]),
      p_bundlerURL = None,
      p_skipEval = False,
      p_template = None,
      p_onFileChange = Some 7,
      p_fileResolver = None\<rparr>"

definition demoState :: State where
  "demoState =
     \<lparr>files = demoFiles(''/package.json'' \<mapsto>
        \<lparr>code = JSON_stringify2 (packageDescriptor ''/index.js'' [(''react'', ''16.8.0'')])\<rparr>),
      browserPath = ''/'',
      openedPath = ''/index.js'',
      iframe = None,
      managerState = Undefined,
      errors = [],
      status = Str ''initializing''\<rparr>"

definition demoComponent :: component where
  "demoComponent =
     \<lparr>props = demoProps, state = demoState, pending = [], batching = True,
      manager = None, iframe_field = None\<rparr>"

definition startMessage :: message where
  "startMessage = (\<lambda>k. if k = ''type'' then Str ''start'' else Undefined)"

definition errorMessage :: "string \<Rightarrow> message" where
  "errorMessage t =
     (\<lambda>k. if k = ''type'' then Str ''action''
          else if k = ''action'' then Str ''show-error''
          else if k = ''title'' then Str t
          else if k = ''line'' then Num 3
          else Undefined)"

definition pingMessage :: message where
  "pingMessage = (\<lambda>k. if k = ''type'' then Str ''transpiler-context'' else Undefined)"

text \<open>
  A stand-in for the engine's constructor, the component once its iframe is mounted and
  React has applied the update, and a run of operations.
\<close>

definition demoManager :: Manager where
  "demoManager = \<lparr>m_element = 0, m_bundlerURL = ''https://bundler.example/''\<rparr>"

definition demoNewManager :: "HTMLIFrameElement \<Rightarrow> SandboxInfo \<Rightarrow> Options \<Rightarrow> Manager" where
  "demoNewManager el info opts = \<lparr>m_element = el, m_bundlerURL = ''https://bundler.example/''\<rparr>"

definition mountedComponent :: component where
  "mountedComponent =
     \<lparr>props = demoProps, state = demoState\<lparr>iframe := Some 0\<rparr>, pending = [],
      batching = False, manager = Some demoManager, iframe_field = Some 0\<rparr>"

definition demoActions :: "action list" where
  "demoActions =
     [Frame (Some 0), Message (errorMessage ''boom''), Edit \<lparr>code = ''x''\<rparr>, Apply False,
      Open ''/package.json'', Edit \<lparr>code = ''{}''\<rparr>,
      Rerender (demoProps\<lparr>p_entry := Some ''/main.js''\<rparr>),
      Update [''/package.json'' \<mapsto> \<lparr>code = ''{}''\<rparr>], Ask, Message startMessage]"

section \<open>Properties\<close>

subsection \<open>State updates\<close>

lemma commit_state_setState:
  "state (commit (setState u c)) = u (state (commit c))"
  by (simp add: setState_def commit_def Let_def)

lemma commit_setState:
  "commit (setState u c) = (commit c)\<lparr>state := u (state (commit c))\<rparr>"
  by (simp add: setState_def commit_def Let_def)


lemma setState_unbatched: "\<not> batching c \<Longrightarrow> commit (setState u c) = setState u c"
  by (simp add: setState_def commit_def Let_def)

lemma setState_fields [simp]:
  "props (setState u c) = props c" "manager (setState u c) = manager c"
  "batching (setState u c) = batching c" "iframe_field (setState u c) = iframe_field c"
  by (simp_all add: setState_def commit_def Let_def)

lemma constructor_demo: "constructor demoProps = ([Listen], Inr demoComponent)"
  by (simp add: constructor_def demoProps_def demoComponent_def demoState_def demoFiles_def
      createMissingPackageJSON_def orElse_def)

subsection \<open>The message handler\<close>

text \<open>
  Claim C6. A \<open>start\<close> message empties the error sequence, whatever it held, and changes
  nothing else: once React has applied the update, the component is the one it would have
  been without the message, with \<open>errors\<close> set to the empty list. When React is not
  batching, the update is applied before \<open>handleMessage\<close> returns.
\<close>

theorem handleMessage_start:
  "m ''type'' = Str ''start'' \<Longrightarrow>
   commit (handleMessage m c) = (commit c)\<lparr>state := (state (commit c))\<lparr>errors := []\<rparr>\<rparr>
   \<and> errors (state (commit (handleMessage m c))) = []
   \<and> (\<not> batching c \<longrightarrow> commit (handleMessage m c) = handleMessage m c)"
  by (simp add: handleMessage_def setState_unbatched) (simp add: commit_setState)

theorem handleMessage_start_witness:
  "startMessage ''type'' = Str ''start''
   \<and> errors (state (commit (handleMessage startMessage
        (handleMessage (errorMessage ''boom'') demoComponent)))) = []"
  using handleMessage_start [of startMessage "handleMessage (errorMessage ''boom'') demoComponent"]
  by (simp add: startMessage_def)

text \<open>
  Claim C9. A message whose kind is none of \<open>state\<close>, \<open>start\<close>, \<open>status\<close>, and which is not an
  \<open>action\<close> with action \<open>show-error\<close>, leaves the component as it is. The handler has no
  error result.
\<close>

theorem handleMessage_other:
  "m ''type'' \<noteq> Str ''state'' \<Longrightarrow> m ''type'' \<noteq> Str ''start'' \<Longrightarrow>
   m ''type'' \<noteq> Str ''status'' \<Longrightarrow>
   \<not> (m ''type'' = Str ''action'' \<and> m ''action'' = Str ''show-error'') \<Longrightarrow>
   handleMessage m c = c"
  by (auto simp: handleMessage_def)

theorem handleMessage_other_witness:
  "pingMessage ''type'' \<noteq> Str ''state'' \<and> pingMessage ''type'' \<noteq> Str ''start''
   \<and> pingMessage ''type'' \<noteq> Str ''status''
   \<and> \<not> (pingMessage ''type'' = Str ''action'' \<and> pingMessage ''action'' = Str ''show-error'')
   \<and> handleMessage pingMessage demoComponent = demoComponent"
  using handleMessage_other [of pingMessage demoComponent]
  by (simp add: pingMessage_def)




subsection \<open>Editing the open file\<close>

lemma files_commit_updateFiles:
  "files (state (commit (snd (updateFiles fs c)))) = fs"
  by (simp add: updateFiles_def Let_def commit_state_setState)

text \<open>
  Claim C5. When there is a file at the open path and the new file has the same content,
  \<open>updateCurrentFile\<close> returns the component unchanged and calls nothing: no engine call,
  no change callback.
\<close>

theorem updateCurrentFile_same_content:
  "files (state c) (openedPath (state c)) = Some f \<Longrightarrow> code file = code f \<Longrightarrow>
   updateCurrentFile file c = ([], c)"
  by (simp add: updateCurrentFile_def)

theorem updateCurrentFile_same_content_witness:
  "files (state demoComponent) (openedPath (state demoComponent)) = Some \<lparr>code = ''render()''\<rparr>
   \<and> updateCurrentFile \<lparr>code = ''render()''\<rparr> demoComponent = ([], demoComponent)"
  using updateCurrentFile_same_content
    [of demoComponent "\<lparr>code = ''render()''\<rparr>" "\<lparr>code = ''render()''\<rparr>"]
  by (simp add: demoComponent_def demoState_def demoFiles_def)

text \<open>
  Claim C10. When there is no file at the open path, \<open>updateCurrentFile\<close> does not stop
  short for any file: it runs \<open>updateFiles\<close> with the file inserted at the open path, and
  once React has applied the update the file set holds that file there. The operation has
  no error result.
\<close>

theorem updateCurrentFile_dangling:
  "files (state c) (openedPath (state c)) = None \<Longrightarrow>
   updateCurrentFile file c = updateFiles ((files (state c))(openedPath (state c) \<mapsto> file)) c
   \<and> files (state (commit (snd (updateCurrentFile file c))))
        = (files (state c))(openedPath (state c) \<mapsto> file)
   \<and> files (state (commit (snd (updateCurrentFile file c)))) (openedPath (state c)) = Some file"
  by (simp add: updateCurrentFile_def files_commit_updateFiles)

theorem updateCurrentFile_dangling_witness:
  "files (state (openFile ''/missing.js'' (demoComponent\<lparr>batching := False\<rparr>)))
      (openedPath (state (openFile ''/missing.js'' (demoComponent\<lparr>batching := False\<rparr>)))) = None
   \<and> files (state (commit (snd (updateCurrentFile \<lparr>code = ''x''\<rparr>
         (openFile ''/missing.js'' (demoComponent\<lparr>batching := False\<rparr>))))))
         (openedPath (state (openFile ''/missing.js'' (demoComponent\<lparr>batching := False\<rparr>))))
       = Some \<lparr>code = ''x''\<rparr>"
proof -
  have h: "files (state (openFile ''/missing.js'' (demoComponent\<lparr>batching := False\<rparr>)))
      (openedPath (state (openFile ''/missing.js'' (demoComponent\<lparr>batching := False\<rparr>)))) = None"
    by (simp add: openFile_def setState_def commit_def demoComponent_def demoState_def
        demoFiles_def)
  from updateCurrentFile_dangling [OF h, of "\<lparr>code = ''x''\<rparr>"] h show ?thesis
    by blast
qed

subsection \<open>The synthesized descriptor\<close>

text \<open>
  Reading back what \<open>JSON.stringify\<close> wrote: first one character, then a string, then
  values and members by induction on the serializer.
\<close>

lemma hexValue_hexDigit: "d < 16 \<Longrightarrow> hexValue (hexDigit d) = Some d"
  by (auto simp: hexValue_def hexDigit_def Let_def)

lemma hexValue_zero: "hexValue CHR ''0'' = Some 0"
  by (simp add: hexValue_def)

lemma readChars_quoteChar:
  "readChars (quoteChar ch @ t) = consChar ch (readChars t)"
proof (cases "ch = CHR 0x08 \<or> ch = CHR 0x09 \<or> ch = CHR 0x0A \<or> ch = CHR 0x0C \<or> ch = CHR 0x0D
    \<or> ch = CHR 0x22 \<or> ch = CHR 0x5C")
  case True
  then show ?thesis
    by (auto simp: quoteChar_def unescape_def)
next
  case nospecial: False
  show ?thesis
  proof (cases "(of_char ch :: nat) < 32")
    case True
    have d1: "(of_char ch :: nat) div 16 < 16" and d2: "(of_char ch :: nat) mod 16 < 16"
      and d3: "(of_char ch :: nat) div 16 < 8"
      using True by auto
    have rebuilt: "char_of (16 * ((of_char ch :: nat) div 16) + of_char ch mod 16) = ch"
      by simp
    show ?thesis
      using nospecial True d3 rebuilt
      by (simp add: quoteChar_def hexValue_zero hexValue_hexDigit [OF d1]
          hexValue_hexDigit [OF d2])
  next
    case False
    with nospecial show ?thesis
      by (simp add: quoteChar_def)
  qed
qed

lemma readChars_quoted:
  "readChars (concat (map quoteChar s) @ CHR 0x22 # rest) = Some (s, rest)"
  by (induction s) (simp_all add: readChars_quoteChar consChar_def)

lemma isWS_quote: "\<not> isWS (CHR 0x22)" and isWS_brace: "\<not> isWS CHR ''{''"
  and isWS_close: "\<not> isWS CHR ''}''" and isWS_colon: "\<not> isWS CHR '':''"
  and isWS_comma: "\<not> isWS CHR '',''" and isWS_space: "isWS CHR '' ''"
  and isWS_newline: "isWS (CHR 0x0A)"
  by (simp_all add: isWS_def)

lemma dropWhile_indent:
  "set ind \<subseteq> {CHR '' ''} \<Longrightarrow> dropWhile isWS (ind @ s) = dropWhile isWS s"
  by (induction ind) (simp_all add: isWS_space)

lemma serializeJSON_head:
  "\<exists>c r. serializeJSON ind v = c # r \<and> \<not> isWS c"
proof (cases v)
  case (JString s)
  then show ?thesis by (simp add: quoteJSONString_def isWS_quote)
next
  case (JObject kvs)
  then show ?thesis by (cases kvs) (simp_all add: isWS_brace)
qed

lemma readValue_skip:
  "dropWhile isWS s = dropWhile isWS s' \<Longrightarrow> readValue n s = readValue n s'"
  by (cases n) simp_all

lemma readMembers_skip:
  "dropWhile isWS s = dropWhile isWS s' \<Longrightarrow> readMembers n s = readMembers n s'"
  by (cases n) simp_all


lemma serializeMembers_head:
  "kvs \<noteq> [] \<Longrightarrow> \<exists>r. serializeMembers ind kvs = CHR 0x22 # r"
  by (cases kvs) (auto simp: quoteJSONString_def)

lemma read_serialized:
  "set ind \<subseteq> {CHR '' ''} \<longrightarrow>
     (\<forall>n rest. need v \<le> n \<longrightarrow> readValue n (serializeJSON ind v @ rest) = Some (v, rest))"
  "set ind' \<subseteq> {CHR '' ''} \<longrightarrow> kvs \<noteq> [] \<longrightarrow>
     (\<forall>n rest ind0. needMembers kvs \<le> n \<longrightarrow> set ind0 \<subseteq> {CHR '' ''} \<longrightarrow>
        readMembers n (serializeMembers ind' kvs @ CHR 0x0A # ind0 @ CHR ''}'' # rest)
          = Some (kvs, rest))"
proof (induction ind v and ind' kvs rule: serializeJSON_serializeMembers.induct)
  case (1 indent s)
  show ?case
  proof (intro impI allI)
    fix n rest
    assume "need (JString s) \<le> n"
    then obtain m where n: "n = Suc m" by (cases n) auto
    show "readValue n (serializeJSON indent (JString s) @ rest) = Some (JString s, rest)"
      by (simp add: n quoteJSONString_def isWS_quote readChars_quoted)
  qed
next
  case (2 indent)
  show ?case
  proof (intro impI allI)
    fix n rest
    assume "need (JObject []) \<le> n"
    then obtain m where n: "n = Suc m" by (cases n) auto
    show "readValue n (serializeJSON indent (JObject []) @ rest) = Some (JObject [], rest)"
      by (simp add: n isWS_brace isWS_close)
  qed
next
  case (3 indent kv kvs)
  show ?case
  proof (intro impI allI)
    fix n rest
    assume ind: "set indent \<subseteq> {CHR '' ''}" and fuel: "need (JObject (kv # kvs)) \<le> n"
    from fuel obtain m where n: "n = Suc m" and m: "needMembers (kv # kvs) \<le> m"
      by (cases n) auto
    have ind2: "set (indent @ ''  '') \<subseteq> {CHR '' ''}"
      using ind by auto
    obtain r where hd: "serializeMembers (indent @ ''  '') (kv # kvs) = CHR 0x22 # r"
      using serializeMembers_head [of "kv # kvs"] by blast
    have members: "readMembers m (serializeMembers (indent @ ''  '') (kv # kvs)
          @ CHR 0x0A # indent @ CHR ''}'' # rest) = Some (kv # kvs, rest)"
      using 3 ind2 m ind by blast
    have skip: "dropWhile isWS (CHR 0x0A # (indent @ ''  '') @ (CHR 0x22 # r)
          @ CHR 0x0A # indent @ CHR ''}'' # rest)
        = CHR 0x22 # r @ CHR 0x0A # indent @ CHR ''}'' # rest"
      using dropWhile_indent [OF ind2, of "(CHR 0x22 # r) @ CHR 0x0A # indent @ CHR ''}'' # rest"]
      by (simp add: isWS_newline isWS_quote)
    have layout: "serializeJSON indent (JObject (kv # kvs)) @ rest
        = CHR ''{'' # CHR 0x0A # (indent @ ''  '') @ (CHR 0x22 # r)
            @ CHR 0x0A # indent @ CHR ''}'' # rest"
      using hd by simp
    show "readValue n (serializeJSON indent (JObject (kv # kvs)) @ rest)
        = Some (JObject (kv # kvs), rest)"
      unfolding layout n using members skip hd
      by (simp add: isWS_brace)
  qed
next
  case (4 indent)
  show ?case by simp
next
  case (5 indent k v kvs)
  show ?case
  proof (intro impI allI)
    fix n rest ind0
    assume ind: "set indent \<subseteq> {CHR '' ''}" and ind0: "set ind0 \<subseteq> {CHR '' ''}"
      and fuel: "needMembers ((k, v) # kvs) \<le> n"
    from fuel obtain m where n: "n = Suc m" and mv: "need v \<le> m" and mk: "needMembers kvs \<le> m"
      by (cases n) auto
    let ?tail = "(if kvs = [] then [] else CHR '','' # CHR 0x0A # indent @ serializeMembers indent kvs)
        @ CHR 0x0A # ind0 @ CHR ''}'' # rest"
    have layout: "serializeMembers indent ((k, v) # kvs) @ CHR 0x0A # ind0 @ CHR ''}'' # rest
        = CHR 0x22 # concat (map quoteChar k) @ CHR 0x22 # CHR '':'' # CHR '' '' #
            serializeJSON indent v @ ?tail"
      by (simp add: quoteJSONString_def)
    have val: "readValue m (CHR '' '' # serializeJSON indent v @ ?tail) = Some (v, ?tail)"
    proof -
      have "readValue m (serializeJSON indent v @ ?tail) = Some (v, ?tail)"
        using 5(1) ind mv by blast
      moreover have "readValue m (CHR '' '' # serializeJSON indent v @ ?tail)
          = readValue m (serializeJSON indent v @ ?tail)"
        by (rule readValue_skip) (simp add: isWS_space)
      ultimately show ?thesis by simp
    qed
    have rest_members: "(case dropWhile isWS ?tail of
          [] \<Rightarrow> None
        | c3 # r4 \<Rightarrow>
            if c3 = CHR '','' then
              (case readMembers m r4 of
                 None \<Rightarrow> None
               | Some (kvs', t) \<Rightarrow> Some ((k, v) # kvs', t))
            else if c3 = CHR ''}'' then Some ([(k, v)], r4)
            else None) = Some ((k, v) # kvs, rest)"
    proof (cases "kvs = []")
      case True
      have "dropWhile isWS (CHR 0x0A # ind0 @ CHR ''}'' # rest) = CHR ''}'' # rest"
        using dropWhile_indent [OF ind0, of "CHR ''}'' # rest"]
        by (simp add: isWS_newline isWS_close)
      then show ?thesis using True by simp
    next
      case False
      have a: "readMembers m (serializeMembers indent kvs @ CHR 0x0A # ind0 @ CHR ''}'' # rest)
          = Some (kvs, rest)"
        using 5(2) False ind mk ind0 by blast
      obtain r where hd: "serializeMembers indent kvs = CHR 0x22 # r"
        using serializeMembers_head [OF False] by blast
      have "dropWhile isWS (CHR 0x0A # indent @ serializeMembers indent kvs
            @ CHR 0x0A # ind0 @ CHR ''}'' # rest)
          = dropWhile isWS (serializeMembers indent kvs @ CHR 0x0A # ind0 @ CHR ''}'' # rest)"
        using dropWhile_indent [OF ind] by (simp add: isWS_newline)
      then have b: "readMembers m (CHR 0x0A # indent @ serializeMembers indent kvs
            @ CHR 0x0A # ind0 @ CHR ''}'' # rest) = Some (kvs, rest)"
        using a readMembers_skip by metis
      show ?thesis using False b by (simp add: isWS_comma)
    qed
    show "readMembers n (serializeMembers indent ((k, v) # kvs) @ CHR 0x0A # ind0 @ CHR ''}'' # rest)
        = Some ((k, v) # kvs, rest)"
      unfolding layout n using val rest_members
      by (simp add: isWS_quote isWS_colon readChars_quoted del: append.simps)
  qed
qed


lemma need_le_length:
  "need v \<le> length (serializeJSON ind v)"
  "needMembers kvs \<le> length (serializeMembers ind' kvs)"
proof (induction ind v and ind' kvs rule: serializeJSON_serializeMembers.induct)
  case (5 indent k v kvs)
  then show ?case
    by (cases "kvs = []") (simp_all add: quoteJSONString_def)
qed (simp_all add: quoteJSONString_def)

lemma readJSON_stringify: "readJSON (JSON_stringify2 v) = Some v"
proof -
  have "\<forall>n rest. need v \<le> n \<longrightarrow> readValue n (serializeJSON [] v @ rest) = Some (v, rest)"
    using read_serialized(1) [of "[]" v] by simp
  then have "readValue (length (serializeJSON [] v)) (serializeJSON [] v @ []) = Some (v, [])"
    using need_le_length(1) [of v "[]"] by blast
  then show ?thesis
    by (simp add: readJSON_def JSON_stringify2_def)
qed

lemma stringValues_strings: "stringValues (map (\<lambda>(k, v). (k, JString v)) deps) = Some deps"
  by (induction deps) auto

text \<open>
  Claim C3. When the file set has no \<open>/package.json\<close>, a dependency object is given (empty
  or not) and the entry is a string that is not empty, \<open>createMissingPackageJSON\<close> adds one
  file at \<open>/package.json\<close> and leaves every other path as it was. The text of the added
  file reads back as the object with \<open>name\<close> \<open>run\<close>, \<open>main\<close> the entry, and \<open>dependencies\<close>
  the given properties, in their order.
\<close>

theorem createMissingPackageJSON_synthesizes:
  assumes "fs ''/package.json'' = None" and "entry \<noteq> []"
  shows "createMissingPackageJSON fs (Some deps) (Some entry)
           = Inr (fs(''/package.json'' \<mapsto> \<lparr>code = JSON_stringify2 (packageDescriptor entry deps)\<rparr>))
         \<and> readJSON (JSON_stringify2 (packageDescriptor entry deps))
           = Some (JObject [(''name'', JString ''run''), (''main'', JString entry),
                (''dependencies'', JObject (map (\<lambda>(k, v). (k, JString v)) deps))])
         \<and> descriptorMain (JSON_stringify2 (packageDescriptor entry deps)) = Some entry
         \<and> descriptorDependencies (JSON_stringify2 (packageDescriptor entry deps)) = Some deps
         \<and> (\<forall>p. p \<noteq> ''/package.json'' \<longrightarrow>
               (fs(''/package.json'' \<mapsto> \<lparr>code = JSON_stringify2 (packageDescriptor entry deps)\<rparr>)) p
                 = fs p)"
proof -
  have made: "createMissingPackageJSON fs (Some deps) (Some entry)
      = Inr (fs(''/package.json'' \<mapsto> \<lparr>code = JSON_stringify2 (packageDescriptor entry deps)\<rparr>))"
    using assms by (simp add: createMissingPackageJSON_def)
  have parsed: "readJSON (JSON_stringify2 (packageDescriptor entry deps))
      = Some (JObject [(''name'', JString ''run''), (''main'', JString entry),
                (''dependencies'', JObject (map (\<lambda>(k, v). (k, JString v)) deps))])"
    using readJSON_stringify [of "packageDescriptor entry deps"]
    by (simp add: packageDescriptor_def)
  have main: "descriptorMain (JSON_stringify2 (packageDescriptor entry deps)) = Some entry"
    by (simp add: descriptorMain_def parsed)
  have deps: "descriptorDependencies (JSON_stringify2 (packageDescriptor entry deps)) = Some deps"
    by (simp add: descriptorDependencies_def parsed stringValues_strings)
  show ?thesis
    using made parsed main deps by simp
qed

theorem createMissingPackageJSON_synthesizes_witness:
  "demoFiles ''/package.json'' = None
   \<and> createMissingPackageJSON demoFiles (Some [(''react'', ''16.8.0'')]) (Some ''/index.js'')
       = Inr (files demoState)
   \<and> descriptorMain (JSON_stringify2 (packageDescriptor ''/index.js'' [(''react'', ''16.8.0'')]))
       = Some ''/index.js''
   \<and> descriptorDependencies
        (JSON_stringify2 (packageDescriptor ''/index.js'' [(''react'', ''16.8.0'')]))
       = Some [(''react'', ''16.8.0'')]
   \<and> files demoState ''/index.js'' = demoFiles ''/index.js''"
proof -
  have h1: "demoFiles ''/package.json'' = None"
    by (simp add: demoFiles_def)
  have h2: "''/index.js'' \<noteq> []"
    by simp
  from createMissingPackageJSON_synthesizes
      [of demoFiles "''/index.js''" "[(''react'', ''16.8.0'')]", OF h1 h2] h1
  show ?thesis
    by (simp add: demoState_def)
qed

text \<open>The text of the descriptor of the example, character by character.\<close>

lemma descriptor_text_demo:
  "JSON_stringify2 (packageDescriptor ''/index.js'' [(''react'', ''16.8.0'')])
     = [CHR ''{'', CHR 0x0A] @ ''  '' @ [CHR 0x22] @ ''name'' @ [CHR 0x22] @ '': ''
         @ [CHR 0x22] @ ''run'' @ [CHR 0x22, CHR '','', CHR 0x0A]
       @ ''  '' @ [CHR 0x22] @ ''main'' @ [CHR 0x22] @ '': ''
         @ [CHR 0x22] @ ''/index.js'' @ [CHR 0x22, CHR '','', CHR 0x0A]
       @ ''  '' @ [CHR 0x22] @ ''dependencies'' @ [CHR 0x22] @ '': '' @ [CHR ''{'', CHR 0x0A]
       @ ''    '' @ [CHR 0x22] @ ''react'' @ [CHR 0x22] @ '': ''
         @ [CHR 0x22] @ ''16.8.0'' @ [CHR 0x22, CHR 0x0A]
       @ ''  }'' @ [CHR 0x0A] @ ''}''"
  by (simp add: JSON_stringify2_def packageDescriptor_def quoteJSONString_def quoteChar_def)

subsection \<open>Construction\<close>

text \<open>
  Claim C4. When the file set has no \<open>/package.json\<close> and the dependency object or the
  entry is absent, the constructor throws, and it has called nothing before: no listener
  is registered, no manager is created, and no component results.
\<close>

theorem constructor_configuration_error:
  "val (p_files p) ''/package.json'' = None \<Longrightarrow>
   p_dependencies p = None \<or> p_entry p = None \<Longrightarrow>
   constructor p = ([], Inl (if p_dependencies p = None then NoDependencies else NoEntry))"
  by (auto simp: constructor_def createMissingPackageJSON_def split: option.splits)

theorem constructor_configuration_error_witness:
  "val (p_files (demoProps\<lparr>p_dependencies := None\<rparr>)) ''/package.json'' = None
   \<and> p_dependencies (demoProps\<lparr>p_dependencies := None\<rparr>) = None
   \<and> constructor (demoProps\<lparr>p_dependencies := None\<rparr>) = ([], Inl NoDependencies)"
  using constructor_configuration_error [of "demoProps\<lparr>p_dependencies := None\<rparr>"]
  by (simp add: demoProps_def demoFiles_def)

subsection \<open>Replacing the file set\<close>

lemma mountedComponent_reached:
  "run createMissingPackageJSON demoNewManager [Frame (Some 0), Apply False] demoComponent
     = Inr mountedComponent"
  by (simp add: setupFrame_def demoComponent_def demoProps_def demoFiles_def
      createMissingPackageJSON_def Let_def setState_def commit_def mountedComponent_def
      demoManager_def demoNewManager_def getOptions_def)

text \<open>
  Claim C2, as stated, fails: on the component as the constructor leaves it, before the
  iframe is mounted, there is no manager, and \<open>updateFiles\<close> makes no call to the engine.
\<close>

theorem updateFiles_without_manager_counterexample:
  "constructor demoProps = ([Listen], Inr demoComponent)
   \<and> filter isUpdatePreview (fst (updateFiles demoFiles demoComponent)) = []"
  by (simp add: constructor_demo) (simp add: updateFiles_def Let_def setState_def demoComponent_def
      demoProps_def isUpdatePreview_def)

lemma updateFiles_component:
  "snd (updateFiles fs c) = setState (\<lambda>s. s\<lparr>files := fs\<rparr>) c"
  by (simp add: updateFiles_def Let_def)

text \<open>
  Claim C2, amended. One call of \<open>updateFiles\<close> replaces the file set and nothing else of
  the state (once React has applied the update); it calls the change callback once when
  one is configured, with the new file set and the snapshot of the component, and not at
  all otherwise; then it calls \<open>updatePreview\<close> once, with the new file set, when the manager
  exists, and not at all when it does not.
\<close>

theorem updateFiles_effects:
  "commit (snd (updateFiles fs c)) = (commit c)\<lparr>state := (state (commit c))\<lparr>files := fs\<rparr>\<rparr>
   \<and> files (state (commit (snd (updateFiles fs c)))) = fs
   \<and> fst (updateFiles fs c)
       = (case p_onFileChange (props c) of
            None \<Rightarrow> []
          | Some cb \<Rightarrow> [OnFileChange cb fs (getSandpackState (snd (updateFiles fs c)))])
         @ (case manager c of
              None \<Rightarrow> []
            | Some m \<Rightarrow>
                [UpdatePreview
                   \<lparr>i_files = fs, i_template = p_template (props c),
                    i_showOpenInCodeSandbox = p_showOpenInCodeSandbox (props c)\<rparr>])
   \<and> length (filter isUpdatePreview (fst (updateFiles fs c)))
       = (case manager c of None \<Rightarrow> 0 | Some m \<Rightarrow> 1)
   \<and> length (filter isOnFileChange (fst (updateFiles fs c)))
       = (case p_onFileChange (props c) of None \<Rightarrow> 0 | Some cb \<Rightarrow> 1)"
  by (simp add: updateFiles_def Let_def commit_setState isUpdatePreview_def isOnFileChange_def
      split: option.splits)

theorem updateFiles_effects_witness:
  "manager mountedComponent = Some demoManager
   \<and> p_onFileChange (props mountedComponent) = Some 7
   \<and> files (state (commit (snd (updateFiles demoFiles mountedComponent)))) = demoFiles
   \<and> fst (updateFiles demoFiles mountedComponent)
       = [OnFileChange 7 demoFiles (getSandpackState (snd (updateFiles demoFiles mountedComponent))),
          UpdatePreview \<lparr>i_files = demoFiles, i_template = None, i_showOpenInCodeSandbox = None\<rparr>]"
  using updateFiles_effects [of demoFiles mountedComponent]
  by (simp add: mountedComponent_def demoProps_def)

text \<open>
  The snapshot is taken after \<open>setState\<close>: it holds the new file set when the update is
  applied at once, and the previous one while React is batching.
\<close>

lemma updateFiles_snapshot_files:
  "ctx_files (getSandpackState (snd (updateFiles fs c)))
     = (if batching c then files (state c) else fs)"
  by (simp add: updateFiles_def Let_def getSandpackState_def setState_def commit_def)

subsection \<open>Synchronisation on property change\<close>

text \<open>
  Claim C8, as stated, fails: when only \<open>skipEval\<close> has changed and there is no manager (the
  \<open>ref\<close> callback has not run, or ran with \<open>null\<close>), \<open>componentDidUpdate\<close> calls nothing.
\<close>

theorem componentDidUpdate_without_manager_counterexample:
  "ref (p_files (demoProps\<lparr>p_skipEval := True\<rparr>)) = ref (p_files (props demoComponent))
   \<and> val (p_files (demoProps\<lparr>p_skipEval := True\<rparr>)) = val (p_files (props demoComponent))
   \<and> p_dependencies (demoProps\<lparr>p_skipEval := True\<rparr>) = p_dependencies (props demoComponent)
   \<and> p_entry (demoProps\<lparr>p_skipEval := True\<rparr>) = p_entry (props demoComponent)
   \<and> p_template (demoProps\<lparr>p_skipEval := True\<rparr>) = p_template (props demoComponent)
   \<and> p_skipEval (demoProps\<lparr>p_skipEval := True\<rparr>) \<noteq> p_skipEval (props demoComponent)
   \<and> manager demoComponent = None
   \<and> componentDidUpdate (demoProps\<lparr>p_skipEval := True\<rparr>) demoComponent = ([], Inr demoComponent)"
  by (simp add: componentDidUpdate_def propsChanged_def syncOptions_def demoComponent_def
      demoProps_def)

text \<open>
  Claim C8, amended. When the previous and the new \<open>files\<close> are the same object, the
  previous and the new \<open>dependencies\<close> are the same object or both absent, \<open>entry\<close> and
  \<open>template\<close> are equal, and \<open>skipEval\<close> differs, \<open>componentDidUpdate\<close> calls \<open>updateOptions\<close>
  once, with the options built from the new properties, when the manager exists, and
  nothing when it does not. In both cases it calls nothing else (no \<open>updatePreview\<close>, no
  change callback), builds no descriptor, and leaves the component as it is.
\<close>

theorem componentDidUpdate_skipEval_only:
  assumes "ref (p_files prev) = ref (p_files (props c))"
    and "map_option ref (p_dependencies prev) = map_option ref (p_dependencies (props c))"
    and "p_entry prev = p_entry (props c)"
    and "p_template prev = p_template (props c)"
    and "p_skipEval prev \<noteq> p_skipEval (props c)"
  shows "componentDidUpdate prev c
           = ((case manager c of
                 None \<Rightarrow> []
               | Some m \<Rightarrow>
                   [UpdateOptions \<lparr>o_bundlerURL = p_bundlerURL (props c),
                                   o_fileResolver = p_fileResolver (props c),
                                   o_skipEval = p_skipEval (props c)\<rparr>]),
              Inr c)
         \<and> filter isUpdatePreview (fst (componentDidUpdate prev c)) = []
         \<and> filter isOnFileChange (fst (componentDidUpdate prev c)) = []"
proof -
  have same: "\<not> propsChanged prev (props c)"
    using assms(1-4) by (simp add: propsChanged_def)
  have calls: "componentDidUpdate prev c
      = ((case manager c of
            None \<Rightarrow> []
          | Some m \<Rightarrow>
              [UpdateOptions \<lparr>o_bundlerURL = p_bundlerURL (props c),
                              o_fileResolver = p_fileResolver (props c),
                              o_skipEval = p_skipEval (props c)\<rparr>]),
         Inr c)"
    using same assms(5)
    by (simp add: componentDidUpdate_def syncOptions_def getOptions_def split: option.splits)
  show ?thesis
    unfolding calls
    by (simp add: isUpdatePreview_def isOnFileChange_def split: option.splits)
qed

theorem componentDidUpdate_skipEval_only_witness:
  "ref (p_files (demoProps\<lparr>p_skipEval := True\<rparr>)) = ref (p_files (props mountedComponent))
   \<and> map_option ref (p_dependencies (demoProps\<lparr>p_skipEval := True\<rparr>))
       = map_option ref (p_dependencies (props mountedComponent))
   \<and> p_entry (demoProps\<lparr>p_skipEval := True\<rparr>) = p_entry (props mountedComponent)
   \<and> p_template (demoProps\<lparr>p_skipEval := True\<rparr>) = p_template (props mountedComponent)
   \<and> p_skipEval (demoProps\<lparr>p_skipEval := True\<rparr>) \<noteq> p_skipEval (props mountedComponent)
   \<and> componentDidUpdate (demoProps\<lparr>p_skipEval := True\<rparr>) mountedComponent
       = ([UpdateOptions \<lparr>o_bundlerURL = None, o_fileResolver = None, o_skipEval = False\<rparr>],
          Inr mountedComponent)"
proof -
  have h1: "ref (p_files (demoProps\<lparr>p_skipEval := True\<rparr>)) = ref (p_files (props mountedComponent))"
    by (simp add: mountedComponent_def)
  have h2: "map_option ref (p_dependencies (demoProps\<lparr>p_skipEval := True\<rparr>))
      = map_option ref (p_dependencies (props mountedComponent))"
    by (simp add: mountedComponent_def)
  have h3: "p_entry (demoProps\<lparr>p_skipEval := True\<rparr>) = p_entry (props mountedComponent)"
    by (simp add: mountedComponent_def)
  have h4: "p_template (demoProps\<lparr>p_skipEval := True\<rparr>) = p_template (props mountedComponent)"
    by (simp add: mountedComponent_def)
  have h5: "p_skipEval (demoProps\<lparr>p_skipEval := True\<rparr>) \<noteq> p_skipEval (props mountedComponent)"
    by (simp add: mountedComponent_def demoProps_def)
  have m: "manager mountedComponent = Some demoManager"
    and o: "p_bundlerURL (props mountedComponent) = None"
      "p_fileResolver (props mountedComponent) = None"
      "p_skipEval (props mountedComponent) = False"
    by (simp_all add: mountedComponent_def demoProps_def)
  from componentDidUpdate_skipEval_only [OF h1 h2 h3 h4 h5] h1 h2 h3 h4 h5 show ?thesis
    by (simp add: m o)
qed

text \<open>
  Unchanged means the same object: a new \<open>files\<close> object with the same contents is sent
  to the engine again.
\<close>

lemma componentDidUpdate_fresh_files_object:
  "val (p_files (demoProps\<lparr>p_files := Object 9 demoFiles\<rparr>)) = val (p_files (props mountedComponent))
   \<and> filter isUpdatePreview
        (fst (componentDidUpdate (demoProps\<lparr>p_files := Object 9 demoFiles\<rparr>) mountedComponent))
       = [UpdatePreview \<lparr>i_files = files demoState, i_template = None,
                          i_showOpenInCodeSandbox = None\<rparr>]"
  by (simp add: componentDidUpdate_def propsChanged_def mountedComponent_def demoProps_def
      createMissingPackageJSON_def demoFiles_def updateFiles_def Let_def setState_def
      commit_def syncOptions_def isUpdatePreview_def demoState_def)

subsection \<open>The package descriptor is kept\<close>

text \<open>
  Claim C1, as stated, fails: \<open>updateFiles\<close> stores the file set it is given, so a file
  set without \<open>/package.json\<close> leaves the state without one.
\<close>

theorem updateFiles_drops_descriptor_counterexample:
  "constructor demoProps = ([Listen], Inr demoComponent)
   \<and> files (state (commit (snd (updateFiles demoFiles demoComponent)))) ''/package.json'' = None"
  by (simp add: constructor_demo files_commit_updateFiles) (simp add: demoFiles_def)

lemma createMissingPackageJSON_has_descriptor:
  "createMissingPackageJSON fs d e = Inr fs' \<Longrightarrow> fs' ''/package.json'' \<noteq> None"
  by (auto simp: createMissingPackageJSON_def split: if_splits option.splits)

lemma descriptorKept_constructor:
  "snd (constructor p) = Inr c \<Longrightarrow> descriptorKept c"
  by (auto simp: constructor_def descriptorKept_def split: sum.splits
      dest: createMissingPackageJSON_has_descriptor)

lemma foldl_keeps_descriptor:
  "files s ''/package.json'' \<noteq> None \<Longrightarrow>
   \<forall>u \<in> set us. \<forall>s. files s ''/package.json'' \<noteq> None \<longrightarrow> files (u s) ''/package.json'' \<noteq> None \<Longrightarrow>
   files (foldl (\<lambda>s u. u s) s us) ''/package.json'' \<noteq> None"
  by (induction us arbitrary: s) auto

lemma descriptorKept_commit: "descriptorKept c \<Longrightarrow> descriptorKept (commit c)"
  using foldl_keeps_descriptor [of "state c" "pending c"]
  by (simp add: descriptorKept_def commit_def)

lemma descriptorKept_setState:
  "descriptorKept c \<Longrightarrow>
   \<forall>s. files s ''/package.json'' \<noteq> None \<longrightarrow> files (u s) ''/package.json'' \<noteq> None \<Longrightarrow>
   descriptorKept (setState u c)"
proof -
  assume k: "descriptorKept c"
    and u: "\<forall>s. files s ''/package.json'' \<noteq> None \<longrightarrow> files (u s) ''/package.json'' \<noteq> None"
  have q: "descriptorKept (c\<lparr>pending := pending c @ [u]\<rparr>)"
    using k u by (auto simp: descriptorKept_def)
  show ?thesis
    using q descriptorKept_commit [OF q] by (simp add: setState_def Let_def)
qed

lemma descriptorKept_handleMessage: "descriptorKept c \<Longrightarrow> descriptorKept (handleMessage m c)"
  by (simp add: handleMessage_def descriptorKept_setState)

lemma descriptorKept_openFile: "descriptorKept c \<Longrightarrow> descriptorKept (openFile p c)"
  by (simp add: openFile_def descriptorKept_setState)

lemma descriptorKept_updateFiles:
  "descriptorKept c \<Longrightarrow> fs ''/package.json'' \<noteq> None \<Longrightarrow> descriptorKept (snd (updateFiles fs c))"
  by (simp add: updateFiles_component descriptorKept_setState)

lemma descriptorKept_updateCurrentFile:
  "descriptorKept c \<Longrightarrow> descriptorKept (snd (updateCurrentFile file c))"
proof -
  assume k: "descriptorKept c"
  have "((files (state c))(openedPath (state c) \<mapsto> file)) ''/package.json'' \<noteq> None"
    using k by (simp add: descriptorKept_def)
  then show ?thesis
    using k by (simp add: updateCurrentFile_def descriptorKept_updateFiles)
qed

lemma descriptorKept_props: "descriptorKept (c\<lparr>props := p\<rparr>) = descriptorKept c"
  by (simp add: descriptorKept_def)

lemma descriptorKept_componentDidUpdate:
  "descriptorKept c \<Longrightarrow> snd (componentDidUpdate prev c) = Inr c' \<Longrightarrow> descriptorKept c'"
  by (auto simp: componentDidUpdate_def Let_def split: if_splits sum.splits prod.splits
      dest!: createMissingPackageJSON_has_descriptor
      dest: descriptorKept_updateFiles [where c = c])

lemma descriptorKept_setupFrame:
  "descriptorKept c \<Longrightarrow> snd (setupFrame g mk el c) = Inr c' \<Longrightarrow> descriptorKept c'"
proof -
  assume k: "descriptorKept c" and r: "snd (setupFrame g mk el c) = Inr c'"
  have a: "descriptorKept (c\<lparr>manager := m, iframe_field := e\<rparr>)" for m e
    using k by (simp add: descriptorKept_def)
  show ?thesis
    using r k
    by (auto simp: setupFrame_def Let_def split: option.splits sum.splits
        intro!: descriptorKept_setState a)
qed

lemma descriptorKept_perform:
  "descriptorKept c \<Longrightarrow> keepsDescriptor a \<Longrightarrow> perform g mk a c = Inr c' \<Longrightarrow> descriptorKept c'"
proof (cases a)
  case (Apply b)
  assume "descriptorKept c" and "perform g mk a c = Inr c'"
  then show ?thesis
    using Apply descriptorKept_commit [of c] by (auto simp: descriptorKept_def)
next
  case (Rerender p)
  assume "descriptorKept c" and "perform g mk a c = Inr c'"
  then show ?thesis
    using Rerender descriptorKept_componentDidUpdate [of "c\<lparr>props := p\<rparr>" "props c" c']
    by (simp add: descriptorKept_props)
qed (auto simp: descriptorKept_handleMessage descriptorKept_openFile descriptorKept_updateFiles
      descriptorKept_updateCurrentFile componentWillUnmount_def
      getManagerTranspilerContext_def
      dest: descriptorKept_setupFrame)

lemma descriptorKept_run:
  "descriptorKept c \<Longrightarrow> list_all keepsDescriptor as \<Longrightarrow> run g mk as c = Inr c' \<Longrightarrow>
   descriptorKept c'"
proof (induction as arbitrary: c)
  case Nil
  then show ?case by simp
next
  case (Cons a as)
  then show ?case
    by (auto split: sum.splits dest: descriptorKept_perform)
qed

text \<open>
  Claim C1, amended. After construction, and after any run of operations in which
  \<open>updateFiles\<close> is only called with file sets that contain \<open>/package.json\<close>, the file set of
  the state contains \<open>/package.json\<close>, before and after React applies the queued updates.
\<close>

theorem descriptor_invariant:
  assumes "snd (constructor p) = Inr c0"
    and "list_all keepsDescriptor as"
    and "run g mk as c0 = Inr c"
  shows "files (state c) ''/package.json'' \<noteq> None
         \<and> files (state (commit c)) ''/package.json'' \<noteq> None"
proof -
  have k: "descriptorKept c"
    using assms descriptorKept_constructor descriptorKept_run by blast
  from k descriptorKept_commit [OF k] show ?thesis
    by (simp add: descriptorKept_def)
qed

lemma demoActions_run:
  "\<not> isl (run createMissingPackageJSON demoNewManager demoActions demoComponent)"
  by (simp add: demoActions_def setupFrame_def demoComponent_def demoProps_def demoFiles_def
      createMissingPackageJSON_def Let_def componentDidUpdate_def updateFiles_def
      propsChanged_def split: prod.splits)

theorem descriptor_invariant_witness:
  "snd (constructor demoProps) = Inr demoComponent
   \<and> list_all keepsDescriptor demoActions
   \<and> \<not> isl (run createMissingPackageJSON demoNewManager demoActions demoComponent)
   \<and> files (state (projr (run createMissingPackageJSON demoNewManager demoActions demoComponent)))
        ''/package.json'' \<noteq> None"
proof -
  have h1: "snd (constructor demoProps) = Inr demoComponent"
    by (simp add: constructor_demo)
  have h2: "list_all keepsDescriptor demoActions"
    by (simp add: demoActions_def)
  have h3: "\<not> isl (run createMissingPackageJSON demoNewManager demoActions demoComponent)"
    by (rule demoActions_run)
  then have h4: "run createMissingPackageJSON demoNewManager demoActions demoComponent
      = Inr (projr (run createMissingPackageJSON demoNewManager demoActions demoComponent))"
    by simp
  from descriptor_invariant [OF h1 h2 h4] h1 h2 h3 show ?thesis
    by blast
qed

end
